theory Spec2Isabelle
  imports Complex_Main "HOL-Library.Sublist"
begin

section \<open>The portfolio dashboard of \<open>app.py\<close>\<close>

text \<open>
  The program loads a list of holdings, asks the market-data provider for the recent
  daily history of each holding in turn (\<open>get_stock_data_individual\<close>), and folds the
  answers into per-position rows and three portfolio totals (the loop of \<open>main\<close>).

  Numbers. The source computes with Python floats; the model computes with \<open>real\<close>, so
  every statement below is about the exact value of the source's expressions and says
  nothing about rounding. Where the source divides, the model says what happens at a zero
  divisor.
\<close>

subsection \<open>Exceptions and division\<close>

datatype py_error =
    ZeroDivisionError
  | ProviderError  \<comment> \<open>any exception raised by the provider call \<open>ak.stock_zh_a_hist\<close>\<close>

text \<open>
  \<open>x / y\<close>. For a divisor other than zero it is the quotient. What it does at a zero
  divisor depends on the type of the operands: on Python's own \<open>int\<close> and \<open>float\<close> it
  raises \<open>ZeroDivisionError\<close>. The first argument of \<open>truediv\<close> gives that outcome, as a
  function of the dividend.
\<close>

type_synonym zero_division = "real \<Rightarrow> py_error + real"

definition truediv :: "zero_division \<Rightarrow> real \<Rightarrow> real \<Rightarrow> py_error + real" where
  "truediv at_zero x y = (if y = 0 then at_zero x else Inr (x / y))"

definition py_zero_division :: zero_division where
  "py_zero_division x = Inl ZeroDivisionError"

definition py_truediv :: "real \<Rightarrow> real \<Rightarrow> py_error + real" where
  "py_truediv = truediv py_zero_division"

subsection \<open>Data\<close>

text \<open>One entry of \<open>holdings.json\<close>, with the keys the source reads.\<close>

record holding =
  code :: string
  name :: string
  quantity :: real
  cost_price :: real
  stop_loss_pct :: real

text \<open>
  One row of the provider's data frame, oldest first. The source reads the closing price
  (for the quote) and the date, open, high and low (for the chart).
\<close>

record hist_row =
  date :: string
  open_price :: real
  close_price :: real
  high_price :: real
  low_price :: real

text \<open>
  What one call of \<open>ak.stock_zh_a_hist\<close> does: it raises, or it returns a data frame.
  The provider is outside the program, so the model takes its answers as given: the answer
  to the \<open>i\<close>-th call of a cycle, for the symbol asked.
\<close>

datatype provider_response = Provider_raises | Frame "hist_row list"

type_synonym provider = "nat \<Rightarrow> string \<Rightarrow> provider_response"

text \<open>The dictionary \<open>get_stock_data_individual\<close> returns on success.\<close>

record snapshot =
  data_code :: string
  data_name :: string
  current_price :: real
  pct_change :: real
  day_profit_per_share :: real
  history_df :: "hist_row list"

text \<open>
  The three texts of the risk column: \<open>Safe\<close> is the initial text (safe),
  \<open>Stop_loss_triggered\<close> the text set when \<open>distance < 0\<close>, \<open>Near_stop_loss\<close> the text
  set when \<open>distance < 0.03\<close>. The specification calls them SAFE, BREACH and WARNING.
\<close>

datatype risk_label = Safe | Stop_loss_triggered | Near_stop_loss

text \<open>
  One dictionary appended to \<open>portfolio_data\<close>; the fields are the source's keys, in its
  order. \<open>row_pct_change\<close> is the number that the source stores as text with two decimals.
\<close>

record row =
  row_code :: string
  row_name :: string
  row_quantity :: real
  row_cost :: real
  row_current :: real
  row_pct_change :: real
  row_profit :: real
  row_profit_pct :: real
  row_day_profit :: real
  row_risk_status :: risk_label
  row_stop_loss_line :: real

text \<open>
  What the loop does to the world outside: \<open>Fetch c\<close> is the call of
  \<open>get_stock_data_individual\<close> for the symbol \<open>c\<close>, whose first effect is the request to the
  provider, and \<open>Sleep d\<close> is the call \<open>time.sleep(d)\<close>.
\<close>

datatype event = Fetch string | Sleep real

text \<open>
  The variables of \<open>main\<close> that the loop updates, and the log of its effects. The progress
  bar and the status text are display only and are left out.
\<close>

record cycle_state =
  portfolio_data :: "row list"
  total_asset :: real
  total_profit :: real
  total_day_profit :: real
  history_cache :: "string \<rightharpoonup> hist_row list"
  events :: "event list"

text \<open>
  A step of \<open>main\<close> ends normally in a state, or an exception leaves \<open>main\<close>;
  \<open>Raised e s\<close> keeps the state \<open>s\<close> reached when \<open>e\<close> was raised.
\<close>

datatype outcome = Ok cycle_state | Raised py_error cycle_state

subsection \<open>\<open>get_stock_data_individual\<close>\<close>

text \<open>
  The body of the \<open>try\<close> block. An empty frame gives \<open>None\<close>; otherwise the last row is
  the latest one, and with two rows or more the change is taken against the row before
  it. The closing prices are cells of the provider's frame, whose number type the source
  does not fix: \<open>at_zero\<close> is what their division does at a zero divisor.
\<close>

definition fetch_try ::
  "zero_division \<Rightarrow> provider_response \<Rightarrow> string \<Rightarrow> string \<Rightarrow> py_error + snapshot option" where
  "fetch_try at_zero resp c n =
     (case resp of
        Provider_raises \<Rightarrow> Inl ProviderError
      | Frame df \<Rightarrow>
          if df = [] then Inr None
          else
            let latest_row = last df in
            if 2 \<le> length df then
              let prev_close = close_price (df ! (length df - 2));
                  current = close_price latest_row
              in (case truediv at_zero (current - prev_close) prev_close of
                    Inl e \<Rightarrow> Inl e
                  | Inr q \<Rightarrow>
                      Inr (Some \<lparr>data_code = c, data_name = n, current_price = current,
                                 pct_change = q * 100,
                                 day_profit_per_share = current - prev_close,
                                 history_df = df\<rparr>))
            else
              Inr (Some \<lparr>data_code = c, data_name = n, current_price = close_price latest_row,
                         pct_change = 0, day_profit_per_share = 0, history_df = df\<rparr>))"

text \<open>
  The whole function: \<open>except Exception\<close> prints the symbol with the exception and returns
  \<open>None\<close>. The second component is what was printed.
\<close>

definition get_stock_data_individual ::
  "zero_division \<Rightarrow> provider_response \<Rightarrow> string \<Rightarrow> string
     \<Rightarrow> snapshot option \<times> (string \<times> py_error) list" where
  "get_stock_data_individual at_zero resp c n =
     (case fetch_try at_zero resp c n of
        Inl e \<Rightarrow> (None, [(c, e)])
      | Inr r \<Rightarrow> (r, []))"

subsection \<open>The loop of \<open>main\<close>\<close>

text \<open>The risk column (the lines after "risk_status = ..." in the loop).\<close>

definition risk_status_of :: "real \<Rightarrow> real \<Rightarrow> risk_label" where
  "risk_status_of profit_pct stop_loss =
     (let distance = profit_pct / 100 - stop_loss in
      if distance < 0 then Stop_loss_triggered
      else if distance < 3 / 100 then Near_stop_loss
      else Safe)"

text \<open>
  The branch \<open>if data:\<close> of the loop body. The cache is written first; the division by
  the cost price is Python's own (the cost comes from JSON, the price through \<open>float\<close>),
  so a zero cost raises here, and nothing catches it.
\<close>

definition account ::
  "holding \<Rightarrow> snapshot \<Rightarrow> cycle_state \<Rightarrow> outcome" where
  "account stock data st =
     (let st1 = st\<lparr>history_cache := (history_cache st)(code stock \<mapsto> history_df data)\<rparr>;
          qty = quantity stock;
          cost = cost_price stock;
          current = current_price data;
          market_val = current * qty;
          profit = (current - cost) * qty
      in case py_truediv (current - cost) cost of
           Inl e \<Rightarrow> Raised e st1
         | Inr q \<Rightarrow>
             let profit_pct = q * 100;
                 day_profit = day_profit_per_share data * qty
             in Ok (st1\<lparr>
                  total_asset := total_asset st1 + market_val,
                  total_profit := total_profit st1 + profit,
                  total_day_profit := total_day_profit st1 + day_profit,
                  portfolio_data := portfolio_data st1 @
                    [\<lparr>row_code = code stock, row_name = name stock, row_quantity = qty,
                      row_cost = cost, row_current = current,
                      row_pct_change = pct_change data,
                      row_profit = profit, row_profit_pct = profit_pct,
                      row_day_profit = day_profit,
                      row_risk_status = risk_status_of profit_pct (stop_loss_pct stock),
                      row_stop_loss_line = stop_loss_pct stock * 100\<rparr>]\<rparr>))"

text \<open>The value \<open>data\<close> of the \<open>i\<close>-th iteration.\<close>

definition fetched :: "zero_division \<Rightarrow> provider \<Rightarrow> nat \<Rightarrow> holding \<Rightarrow> snapshot option" where
  "fetched at_zero ak i stock =
     fst (get_stock_data_individual at_zero (ak i (code stock)) (code stock) (name stock))"

text \<open>One iteration: the fetch, the branch on its result, then the pause.\<close>

definition loop_body ::
  "zero_division \<Rightarrow> provider \<Rightarrow> nat \<Rightarrow> holding \<Rightarrow> cycle_state \<Rightarrow> outcome" where
  "loop_body at_zero ak i stock st =
     (let st1 = st\<lparr>events := events st @ [Fetch (code stock)]\<rparr> in
      case (case fetched at_zero ak i stock of
              Some data \<Rightarrow> account stock data st1
            | None \<Rightarrow> Ok st1) of
        Raised e s \<Rightarrow> Raised e s
      | Ok st2 \<Rightarrow> Ok (st2\<lparr>events := events st2 @ [Sleep (2 / 10)]\<rparr>))"

text \<open>\<open>for i, stock in enumerate(holdings)\<close>, from index \<open>i\<close> on.\<close>

fun main_loop ::
  "zero_division \<Rightarrow> provider \<Rightarrow> nat \<Rightarrow> holding list \<Rightarrow> cycle_state \<Rightarrow> outcome" where
  "main_loop at_zero ak i [] st = Ok st"
| "main_loop at_zero ak i (stock # rest) st =
     (case loop_body at_zero ak i stock st of
        Raised e s \<Rightarrow> Raised e s
      | Ok st' \<Rightarrow> main_loop at_zero ak (Suc i) rest st')"

text \<open>The variables as \<open>main\<close> sets them before the loop.\<close>

definition initial_state :: cycle_state where
  "initial_state =
     \<lparr>portfolio_data = [], total_asset = 0, total_profit = 0, total_day_profit = 0,
      history_cache = Map.empty, events = []\<rparr>"

text \<open>
  How a run of \<open>main\<close> ends, up to the point where the display starts:
  \<^item> \<open>No_holdings\<close>: the list is empty and \<open>main\<close> stops before the loop;
  \<^item> \<open>No_data s\<close>: the loop left \<open>portfolio_data\<close> empty, \<open>main\<close> shows the error
    "no data could be fetched" and stops;
  \<^item> \<open>Dashboard s\<close>: the cards, the table and the chart are drawn from \<open>s\<close>;
  \<^item> \<open>Uncaught e s\<close>: the exception \<open>e\<close> left \<open>main\<close>.
\<close>

datatype page = No_holdings | No_data cycle_state | Dashboard cycle_state
  | Uncaught py_error cycle_state

definition main :: "zero_division \<Rightarrow> provider \<Rightarrow> holding list \<Rightarrow> page" where
  "main at_zero ak holdings =
     (if holdings = [] then No_holdings
      else case main_loop at_zero ak 0 holdings initial_state of
             Raised e s \<Rightarrow> Uncaught e s
           | Ok s \<Rightarrow> if portfolio_data s = [] then No_data s else Dashboard s)"

subsection \<open>Notions used in the statements\<close>

text \<open>
  The dictionary the loop appends for a holding and its snapshot, with the values of the
  locals \<open>profit\<close>, \<open>profit_pct\<close>, \<open>day_profit\<close> and \<open>risk_status\<close> written out (for a
  cost price other than zero).
\<close>

definition position_row :: "holding \<Rightarrow> snapshot \<Rightarrow> row" where
  "position_row stock data =
     \<lparr>row_code = code stock, row_name = name stock, row_quantity = quantity stock,
      row_cost = cost_price stock, row_current = current_price data,
      row_pct_change = pct_change data,
      row_profit = (current_price data - cost_price stock) * quantity stock,
      row_profit_pct = (current_price data - cost_price stock) / cost_price stock * 100,
      row_day_profit = day_profit_per_share data * quantity stock,
      row_risk_status =
        risk_status_of ((current_price data - cost_price stock) / cost_price stock * 100)
          (stop_loss_pct stock),
      row_stop_loss_line = stop_loss_pct stock * 100\<rparr>"

text \<open>
  The holdings whose fetch returned a snapshot, each with its snapshot, in the order of the
  list; \<open>i\<close> is the index of the first holding.
\<close>

definition successes ::
  "zero_division \<Rightarrow> provider \<Rightarrow> nat \<Rightarrow> holding list \<Rightarrow> (holding \<times> snapshot) list" where
  "successes at_zero ak i holdings =
     List.map_filter (\<lambda>(k, stock). map_option (Pair stock) (fetched at_zero ak k stock))
       (enumerate i holdings)"

text \<open>The state an outcome carries, and the effects a run of \<open>main\<close> has had.\<close>

fun state_of :: "outcome \<Rightarrow> cycle_state" where
  "state_of (Ok s) = s"
| "state_of (Raised e s) = s"

fun page_events :: "page \<Rightarrow> event list" where
  "page_events No_holdings = []"
| "page_events (No_data s) = events s"
| "page_events (Dashboard s) = events s"
| "page_events (Uncaught e s) = events s"

text \<open>
  A log is paced when it is a sequence of pairs "fetch, then a pause of 0.2", with at most
  one more fetch at its end.
\<close>

fun paced :: "event list \<Rightarrow> bool" where
  "paced [] = True"
| "paced [Fetch c] = True"
| "paced (Fetch c # Sleep d # es) = (d = 2 / 10 \<and> paced es)"
| "paced es = False"

text \<open>
  Scenarios A and D of the specification: the holding \<open>alpha\<close> (100 shares bought at
  10.00, stop-loss 8 percent), whose history ends with the closes 9.00 and 9.50, and a
  second holding \<open>beta\<close>, for which the provider returns an empty frame.
\<close>

definition alpha :: holding where
  "alpha = \<lparr>code = ''X'', name = ''Alpha'', quantity = 100, cost_price = 10,
            stop_loss_pct = 8 / 100\<rparr>"

definition beta :: holding where
  "beta = \<lparr>code = ''Y'', name = ''Beta'', quantity = 50, cost_price = 4,
           stop_loss_pct = 5 / 100\<rparr>"

definition alpha_history :: "hist_row list" where
  "alpha_history =
     [\<lparr>date = ''2024-01-02'', open_price = 9, close_price = 9, high_price = 9, low_price = 9\<rparr>,
      \<lparr>date = ''2024-01-03'', open_price = 9, close_price = 19 / 2, high_price = 10,
        low_price = 9\<rparr>]"

definition alpha_snapshot :: snapshot where
  "alpha_snapshot =
     \<lparr>data_code = ''X'', data_name = ''Alpha'', current_price = 19 / 2, pct_change = 50 / 9,
      day_profit_per_share = 1 / 2, history_df = alpha_history\<rparr>"

definition scenario_provider :: provider where
  "scenario_provider i c = (if c = ''X'' then Frame alpha_history else Frame [])"

definition failing_provider :: provider where
  "failing_provider i c = (if c = ''X'' then Provider_raises else Frame [])"

section \<open>Auxiliary facts\<close>

subsection \<open>The successful holdings\<close>

lemma successes_Nil [simp]: "successes at_zero ak i [] = []"
  by (simp add: successes_def)

lemma successes_Cons:
  "successes at_zero ak i (stock # rest) =
     (case fetched at_zero ak i stock of
        None \<Rightarrow> successes at_zero ak (Suc i) rest
      | Some data \<Rightarrow> (stock, data) # successes at_zero ak (Suc i) rest)"
  by (simp add: successes_def split: option.splits)

lemma account_ok:
  assumes "cost_price stock \<noteq> 0"
  shows "account stock data st =
     Ok (st\<lparr>history_cache := (history_cache st)(code stock \<mapsto> history_df data),
            total_asset := total_asset st + current_price data * quantity stock,
            total_profit := total_profit st + (current_price data - cost_price stock) * quantity stock,
            total_day_profit := total_day_profit st + day_profit_per_share data * quantity stock,
            portfolio_data := portfolio_data st @ [position_row stock data]\<rparr>)"
  using assms by (simp add: account_def py_truediv_def truediv_def Let_def position_row_def)

lemma account_zero_cost:
  assumes "cost_price stock = 0"
  shows "account stock data st =
     Raised ZeroDivisionError
       (st\<lparr>history_cache := (history_cache st)(code stock \<mapsto> history_df data)\<rparr>)"
  using assms by (simp add: account_def py_truediv_def truediv_def py_zero_division_def Let_def)

lemma loop_body_failed:
  assumes "fetched at_zero ak i stock = None"
  shows "loop_body at_zero ak i stock st =
     Ok (st\<lparr>events := events st @ [Fetch (code stock), Sleep (2 / 10)]\<rparr>)"
  using assms by (simp add: loop_body_def Let_def)

lemma loop_body_ok:
  assumes "fetched at_zero ak i stock = Some data" and "cost_price stock \<noteq> 0"
  shows "loop_body at_zero ak i stock st =
     Ok (st\<lparr>events := events st @ [Fetch (code stock), Sleep (2 / 10)],
            history_cache := (history_cache st)(code stock \<mapsto> history_df data),
            total_asset := total_asset st + current_price data * quantity stock,
            total_profit := total_profit st + (current_price data - cost_price stock) * quantity stock,
            total_day_profit := total_day_profit st + day_profit_per_share data * quantity stock,
            portfolio_data := portfolio_data st @ [position_row stock data]\<rparr>)"
  using assms by (simp add: loop_body_def Let_def account_ok)

lemma loop_body_zero_cost:
  assumes "fetched at_zero ak i stock = Some data" and "cost_price stock = 0"
  shows "loop_body at_zero ak i stock st =
     Raised ZeroDivisionError
       (st\<lparr>events := events st @ [Fetch (code stock)],
           history_cache := (history_cache st)(code stock \<mapsto> history_df data)\<rparr>)"
  using assms by (simp add: loop_body_def Let_def account_zero_cost)

lemma main_loop_ok:
  assumes "\<forall>(stock, data) \<in> set (successes at_zero ak i holdings). cost_price stock \<noteq> 0"
  shows "\<exists>s. main_loop at_zero ak i holdings st = Ok s
     \<and> portfolio_data s =
         portfolio_data st @ map (\<lambda>(stock, data). position_row stock data)
           (successes at_zero ak i holdings)
     \<and> total_asset s = total_asset st +
         (\<Sum>(stock, data) \<leftarrow> successes at_zero ak i holdings. current_price data * quantity stock)
     \<and> total_profit s = total_profit st +
         (\<Sum>(stock, data) \<leftarrow> successes at_zero ak i holdings.
            (current_price data - cost_price stock) * quantity stock)
     \<and> total_day_profit s = total_day_profit st +
         (\<Sum>(stock, data) \<leftarrow> successes at_zero ak i holdings.
            day_profit_per_share data * quantity stock)
     \<and> events s = events st @
         concat (map (\<lambda>stock. [Fetch (code stock), Sleep (2 / 10)]) holdings)"
  using assms
proof (induction holdings arbitrary: i st)
  case Nil
  then show ?case by simp
next
  case (Cons stock rest)
  show ?case
  proof (cases "fetched at_zero ak i stock")
    case None
    from Cons.prems None
    have "\<forall>(h, d) \<in> set (successes at_zero ak (Suc i) rest). cost_price h \<noteq> 0"
      by (simp add: successes_Cons)
    from Cons.IH [OF this, of "st\<lparr>events := events st @ [Fetch (code stock), Sleep (2 / 10)]\<rparr>"]
      None
    show ?thesis
      by (auto simp: loop_body_failed successes_Cons)
  next
    case (Some data)
    from Cons.prems Some have c: "cost_price stock \<noteq> 0"
      and r: "\<forall>(h, d) \<in> set (successes at_zero ak (Suc i) rest). cost_price h \<noteq> 0"
      by (simp_all add: successes_Cons)
    from Cons.IH [OF r, of "st\<lparr>events := events st @ [Fetch (code stock), Sleep (2 / 10)],
            history_cache := (history_cache st)(code stock \<mapsto> history_df data),
            total_asset := total_asset st + current_price data * quantity stock,
            total_profit := total_profit st + (current_price data - cost_price stock) * quantity stock,
            total_day_profit := total_day_profit st + day_profit_per_share data * quantity stock,
            portfolio_data := portfolio_data st @ [position_row stock data]\<rparr>"]
      Some c
    show ?thesis
      by (auto simp: loop_body_ok successes_Cons)
  qed
qed


lemma main_loop_events_ok:
  "main_loop at_zero ak i holdings st = Ok s \<Longrightarrow>
   events s = events st @ concat (map (\<lambda>stock. [Fetch (code stock), Sleep (2 / 10)]) holdings)"
proof (induction holdings arbitrary: i st)
  case Nil
  then show ?case by simp
next
  case (Cons stock rest)
  show ?case
  proof (cases "fetched at_zero ak i stock")
    case None
    with Cons.prems Cons.IH show ?thesis
      by (simp add: loop_body_failed)
  next
    case (Some data)
    show ?thesis
    proof (cases "cost_price stock = 0")
      case True
      with Some Cons.prems show ?thesis
        by (simp add: loop_body_zero_cost)
    next
      case False
      with Some Cons.prems Cons.IH show ?thesis
        by (simp add: loop_body_ok)
    qed
  qed
qed

lemma main_loop_paced:
  "\<exists>E. events (state_of (main_loop at_zero ak i holdings st)) = events st @ E \<and> paced E"
proof (induction holdings arbitrary: i st)
  case Nil
  then show ?case by simp
next
  case (Cons stock rest)
  show ?case
  proof (cases "fetched at_zero ak i stock")
    case None
    let ?st' = "st\<lparr>events := events st @ [Fetch (code stock), Sleep (2 / 10)]\<rparr>"
    from Cons.IH [of "Suc i" ?st'] obtain E where
      "events (state_of (main_loop at_zero ak (Suc i) rest ?st')) = events ?st' @ E" "paced E"
      by blast
    with None have
      "events (state_of (main_loop at_zero ak i (stock # rest) st))
         = events st @ (Fetch (code stock) # Sleep (2 / 10) # E)
       \<and> paced (Fetch (code stock) # Sleep (2 / 10) # E)"
      by (simp add: loop_body_failed)
    then show ?thesis by blast
  next
    case (Some data)
    show ?thesis
    proof (cases "cost_price stock = 0")
      case True
      with Some have
        "events (state_of (main_loop at_zero ak i (stock # rest) st))
           = events st @ [Fetch (code stock)] \<and> paced [Fetch (code stock)]"
        by (simp add: loop_body_zero_cost)
      then show ?thesis by blast
    next
      case False
      let ?st' = "st\<lparr>events := events st @ [Fetch (code stock), Sleep (2 / 10)],
            history_cache := (history_cache st)(code stock \<mapsto> history_df data),
            total_asset := total_asset st + current_price data * quantity stock,
            total_profit := total_profit st + (current_price data - cost_price stock) * quantity stock,
            total_day_profit := total_day_profit st + day_profit_per_share data * quantity stock,
            portfolio_data := portfolio_data st @ [position_row stock data]\<rparr>"
      from Cons.IH [of "Suc i" ?st'] obtain E where
        "events (state_of (main_loop at_zero ak (Suc i) rest ?st')) = events ?st' @ E" "paced E"
        by blast
      with Some False have
        "events (state_of (main_loop at_zero ak i (stock # rest) st))
           = events st @ (Fetch (code stock) # Sleep (2 / 10) # E)
         \<and> paced (Fetch (code stock) # Sleep (2 / 10) # E)"
        by (simp add: loop_body_ok)
      then show ?thesis by blast
    qed
  qed
qed

lemma paced_between:
  "paced es \<Longrightarrow> i < j \<Longrightarrow> j < length es \<Longrightarrow> es ! i = Fetch a \<Longrightarrow> es ! j = Fetch b
   \<Longrightarrow> \<exists>k. i < k \<and> k < j \<and> es ! k = Sleep (2 / 10)"
proof (induction es arbitrary: i j rule: paced.induct)
  case (3 c d es)
  from "3.prems"(1) have d: "d = 2 / 10" and p: "paced es"
    by simp_all
  show ?case
  proof (cases i)
    case 0
    have "j \<noteq> Suc 0"
      using "3.prems"(5) by auto
    with "3.prems"(2) 0 have "Suc 0 < j"
      by simp
    moreover have "(Fetch c # Sleep d # es) ! Suc 0 = Sleep (2 / 10)"
      using d by simp
    ultimately show ?thesis
      using 0 by blast
  next
    case (Suc i')
    have "i' \<noteq> 0"
      using "3.prems"(4) Suc by (cases i') auto
    then obtain i'' where i: "i = Suc (Suc i'')"
      using Suc by (cases i') auto
    with "3.prems"(2) obtain j'' where j: "j = Suc (Suc j'')" and lt: "i'' < j''"
      by (cases j; cases "j - 1") auto
    from "3.prems" i j have "j'' < length es" "es ! i'' = Fetch a" "es ! j'' = Fetch b"
      by simp_all
    with "3.IH" d p lt obtain k where "i'' < k" "k < j''" "es ! k = Sleep (2 / 10)"
      by blast
    then have
      "i < Suc (Suc k) \<and> Suc (Suc k) < j
       \<and> (Fetch c # Sleep d # es) ! Suc (Suc k) = Sleep (2 / 10)"
      using i j by simp
    then show ?thesis
      by blast
  qed
qed auto

lemma successes_empty_iff:
  "successes at_zero ak i holdings = [] \<longleftrightarrow>
     (\<forall>k < length holdings. fetched at_zero ak (i + k) (holdings ! k) = None)"
proof (induction holdings arbitrary: i)
  case Nil
  then show ?case by simp
next
  case (Cons stock rest)
  show ?case
    by (cases "fetched at_zero ak i stock")
       (auto simp: successes_Cons Cons.IH All_less_Suc2)
qed

lemma subseq_successes: "subseq (map fst (successes at_zero ak i holdings)) holdings"
  by (induction holdings arbitrary: i) (auto simp: successes_Cons split: option.splits)

lemma map_fst_successes:
  "map fst (successes at_zero ak i holdings) =
     map snd (filter (\<lambda>(k, stock). fetched at_zero ak k stock \<noteq> None) (enumerate i holdings))"
  by (induction holdings arbitrary: i) (auto simp: successes_Cons split: option.splits)

subsection \<open>The scenarios\<close>

lemma fetched_alpha: "fetched py_zero_division scenario_provider i alpha = Some alpha_snapshot"
  by (simp add: fetched_def get_stock_data_individual_def fetch_try_def truediv_def Let_def
      scenario_provider_def alpha_def alpha_history_def alpha_snapshot_def)

lemma fetched_beta: "fetched py_zero_division scenario_provider i beta = None"
  by (simp add: fetched_def get_stock_data_individual_def fetch_try_def
      scenario_provider_def beta_def)

lemma fetched_failing:
  "fetched py_zero_division failing_provider i alpha = None"
  "fetched py_zero_division failing_provider i beta = None"
  by (simp_all add: fetched_def get_stock_data_individual_def fetch_try_def
      failing_provider_def alpha_def beta_def)

lemma successes_scenario:
  "successes py_zero_division scenario_provider 0 [alpha, beta] = [(alpha, alpha_snapshot)]"
  by (simp add: successes_Cons fetched_alpha fetched_beta)

lemma successes_failing:
  "successes py_zero_division failing_provider 0 [alpha, beta] = []"
  by (simp add: successes_Cons fetched_failing)

lemma cost_alpha: "cost_price alpha = 10"
  by (simp add: alpha_def)

lemma code_alpha: "code alpha = ''X''"
  by (simp add: alpha_def)

subsection \<open>Where the loop does not run to its end\<close>

text \<open>
  An empty list of holdings stops \<open>main\<close> before the loop, and a fetched holding with a
  zero cost price makes the loop raise \<open>ZeroDivisionError\<close>, which leaves \<open>main\<close>.
\<close>

lemma main_no_holdings: "main at_zero ak [] = No_holdings"
  by (simp add: main_def)

lemma main_zero_cost_uncaught:
  assumes "fetched at_zero ak 0 stock = Some data" and "cost_price stock = 0"
  shows "\<exists>s. main at_zero ak (stock # rest) = Uncaught ZeroDivisionError s"
  using assms by (simp add: main_def loop_body_zero_cost)

subsection \<open>A previous close of zero\<close>

text \<open>
  With two rows or more, the quote divides by the previous close. If that close is zero
  and the division raises there, the handler turns the exception into \<open>None\<close> and the loop
  skips the holding; if the division returns a number there, a snapshot is returned.
\<close>

lemma zero_prev_close_raising:
  assumes "2 \<le> length df" and "close_price (df ! (length df - 2)) = 0"
    and "at_zero (close_price (last df)) = Inl e"
  shows "get_stock_data_individual at_zero (Frame df) c n = (None, [(c, e)])"
  using assms
  by (auto simp: get_stock_data_individual_def fetch_try_def truediv_def Let_def)

lemma zero_prev_close_returning:
  assumes "2 \<le> length df" and "close_price (df ! (length df - 2)) = 0"
    and "at_zero (close_price (last df)) = Inr v"
  shows "\<exists>d. get_stock_data_individual at_zero (Frame df) c n = (Some d, [])"
  using assms
  by (auto simp: get_stock_data_individual_def fetch_try_def truediv_def Let_def)

section \<open>Risk classification\<close>

text \<open>
  C1. The risk label is \<open>Stop_loss_triggered\<close> (BREACH) exactly when
  \<open>x / 100 - s < 0\<close>, \<open>Near_stop_loss\<close> (WARNING) exactly when \<open>0 \<le> x / 100 - s < 0.03\<close>,
  and \<open>Safe\<close> exactly when \<open>x / 100 - s \<ge> 0.03\<close>. At \<open>x / 100 - s = 0\<close> the label is
  WARNING, at \<open>x / 100 - s = 0.03\<close> it is SAFE, and a position in profit (\<open>x > 0\<close>) is
  BREACH whenever \<open>x / 100 < s\<close>.
\<close>

theorem risk_status_of_boundaries:
  "(risk_status_of x s = Stop_loss_triggered \<longleftrightarrow> x / 100 - s < 0)
   \<and> (risk_status_of x s = Near_stop_loss \<longleftrightarrow> 0 \<le> x / 100 - s \<and> x / 100 - s < 3 / 100)
   \<and> (risk_status_of x s = Safe \<longleftrightarrow> 3 / 100 \<le> x / 100 - s)
   \<and> (x / 100 - s = 0 \<longrightarrow> risk_status_of x s = Near_stop_loss)
   \<and> (x / 100 - s = 3 / 100 \<longrightarrow> risk_status_of x s = Safe)
   \<and> (0 < x \<and> x / 100 < s \<longrightarrow> risk_status_of x s = Stop_loss_triggered)"
  by (auto simp: risk_status_of_def Let_def)

theorem risk_status_of_boundaries_witness:
  "risk_status_of 0 0 = Near_stop_loss
   \<and> risk_status_of 3 0 = Safe
   \<and> risk_status_of 2 (8 / 100) = Stop_loss_triggered"
  using risk_status_of_boundaries [of 0 0] risk_status_of_boundaries [of 3 0]
    risk_status_of_boundaries [of 2 "8 / 100"]
  by simp

section \<open>Position metrics\<close>

text \<open>
  C2. For a holding whose fetch returned a snapshot with current price \<open>c\<close> and day profit
  per share \<open>d\<close>, with quantity \<open>q\<close> and cost price \<open>p > 0\<close>, the iteration appends one row
  whose profit is \<open>(c - p) * q\<close>, whose profit percentage is \<open>(c - p) / p * 100\<close> and whose
  day profit is \<open>d * q\<close>. The market value \<open>c * q\<close> is not a field of the row: it is the
  amount added to \<open>total_asset\<close>, and the product of the row's price and quantity.
\<close>

theorem position_metrics_formulas:
  assumes "fetched at_zero ak i stock = Some data" and "0 < cost_price stock"
  shows "\<exists>s m. loop_body at_zero ak i stock st = Ok s
     \<and> portfolio_data s = portfolio_data st @ [m]
     \<and> total_asset s = total_asset st + current_price data * quantity stock
     \<and> row_current m * row_quantity m = current_price data * quantity stock
     \<and> row_profit m = (current_price data - cost_price stock) * quantity stock
     \<and> row_profit_pct m = (current_price data - cost_price stock) / cost_price stock * 100
     \<and> row_day_profit m = day_profit_per_share data * quantity stock"
  using assms by (simp add: loop_body_ok position_row_def)

theorem position_metrics_formulas_witness:
  "\<exists>s m. loop_body py_zero_division scenario_provider 0 alpha initial_state = Ok s
     \<and> portfolio_data s = [m]
     \<and> total_asset s = 950
     \<and> row_profit m = - 50
     \<and> row_profit_pct m = - 5
     \<and> row_day_profit m = 50"
proof -
  have c: "0 < cost_price alpha"
    by (simp add: alpha_def)
  from position_metrics_formulas [OF fetched_alpha c, of 0 initial_state]
  show ?thesis
    by (auto simp: alpha_def alpha_snapshot_def initial_state_def)
qed

section \<open>Portfolio totals\<close>

text \<open>
  C3. The three totals start at zero, and at the end of the loop each is the sum of the
  corresponding amount over exactly the holdings whose fetch returned a snapshot (and so
  over the rows of \<open>portfolio_data\<close>); a holding whose fetch failed is not among them.
  The loop reaches its end when no fetched holding has a zero cost price, which the data
  model assumes.
\<close>

theorem portfolio_totals_are_sums:
  assumes "\<forall>(stock, data) \<in> set (successes at_zero ak 0 holdings). cost_price stock \<noteq> 0"
  shows "total_asset initial_state = 0 \<and> total_profit initial_state = 0
     \<and> total_day_profit initial_state = 0
     \<and> (\<exists>s. main_loop at_zero ak 0 holdings initial_state = Ok s
          \<and> total_asset s =
              (\<Sum>(stock, data) \<leftarrow> successes at_zero ak 0 holdings.
                 current_price data * quantity stock)
          \<and> total_profit s =
              (\<Sum>(stock, data) \<leftarrow> successes at_zero ak 0 holdings.
                 (current_price data - cost_price stock) * quantity stock)
          \<and> total_day_profit s =
              (\<Sum>(stock, data) \<leftarrow> successes at_zero ak 0 holdings.
                 day_profit_per_share data * quantity stock)
          \<and> total_asset s = (\<Sum>m \<leftarrow> portfolio_data s. row_current m * row_quantity m)
          \<and> total_profit s = (\<Sum>m \<leftarrow> portfolio_data s. row_profit m)
          \<and> total_day_profit s = (\<Sum>m \<leftarrow> portfolio_data s. row_day_profit m))"
proof -
  from main_loop_ok [OF assms, of initial_state] obtain s where
    s: "main_loop at_zero ak 0 holdings initial_state = Ok s"
      "portfolio_data s =
         map (\<lambda>(stock, data). position_row stock data) (successes at_zero ak 0 holdings)"
      "total_asset s =
         (\<Sum>(stock, data) \<leftarrow> successes at_zero ak 0 holdings. current_price data * quantity stock)"
      "total_profit s =
         (\<Sum>(stock, data) \<leftarrow> successes at_zero ak 0 holdings.
            (current_price data - cost_price stock) * quantity stock)"
      "total_day_profit s =
         (\<Sum>(stock, data) \<leftarrow> successes at_zero ak 0 holdings.
            day_profit_per_share data * quantity stock)"
    by (auto simp: initial_state_def)
  have "(\<Sum>m \<leftarrow> portfolio_data s. row_current m * row_quantity m) = total_asset s"
      "(\<Sum>m \<leftarrow> portfolio_data s. row_profit m) = total_profit s"
      "(\<Sum>m \<leftarrow> portfolio_data s. row_day_profit m) = total_day_profit s"
    by (simp_all add: s comp_def case_prod_unfold position_row_def)
  with s show ?thesis
    by (simp add: initial_state_def)
qed

theorem portfolio_totals_are_sums_witness:
  "successes py_zero_division scenario_provider 0 [alpha, beta] = [(alpha, alpha_snapshot)]
   \<and> cost_price alpha \<noteq> 0
   \<and> (\<exists>s. main_loop py_zero_division scenario_provider 0 [alpha, beta] initial_state = Ok s
        \<and> total_asset s = 950 \<and> total_profit s = - 50 \<and> total_day_profit s = 50)"
proof -
  have h: "\<forall>(stock, data) \<in> set (successes py_zero_division scenario_provider 0 [alpha, beta]).
             cost_price stock \<noteq> 0"
    by (simp add: successes_scenario cost_alpha)
  from portfolio_totals_are_sums [OF h] obtain s where
    "main_loop py_zero_division scenario_provider 0 [alpha, beta] initial_state = Ok s"
    "total_asset s = current_price alpha_snapshot * quantity alpha"
    "total_profit s = (current_price alpha_snapshot - cost_price alpha) * quantity alpha"
    "total_day_profit s = day_profit_per_share alpha_snapshot * quantity alpha"
    by (auto simp: successes_scenario simp del: main_loop.simps)
  then have
    "main_loop py_zero_division scenario_provider 0 [alpha, beta] initial_state = Ok s
     \<and> total_asset s = 950 \<and> total_profit s = - 50 \<and> total_day_profit s = 50"
    by (simp add: alpha_def alpha_snapshot_def del: main_loop.simps)
  then show ?thesis
    using successes_scenario cost_alpha by (simp del: main_loop.simps)
qed

section \<open>The quote snapshot\<close>

text \<open>
  C4. For a non-empty frame the snapshot's current price is the close of the last row.
  With exactly one row the snapshot exists and its percentage change and day profit per
  share are both zero. With two rows or more and a previous close other than zero the
  snapshot exists, its percentage change is \<open>(last - prev) / prev * 100\<close> and its day profit
  per share is \<open>last - prev\<close>.
\<close>

theorem snapshot_from_history:
  assumes "df \<noteq> []"
    and "r = fst (get_stock_data_individual at_zero (Frame df) c n)"
    and "cur = close_price (last df)"
    and "prev = close_price (df ! (length df - 2))"
  shows "(length df = 1 \<longrightarrow>
            (\<exists>d. r = Some d \<and> current_price d = cur \<and> pct_change d = 0
                 \<and> day_profit_per_share d = 0))
       \<and> (2 \<le> length df \<and> prev \<noteq> 0 \<longrightarrow>
            (\<exists>d. r = Some d \<and> current_price d = cur
                 \<and> pct_change d = (cur - prev) / prev * 100
                 \<and> day_profit_per_share d = cur - prev))
       \<and> (\<forall>d. r = Some d \<longrightarrow>
            current_price d = cur \<and> history_df d = df
            \<and> (2 \<le> length df \<longrightarrow> day_profit_per_share d = cur - prev))"
  using assms
  by (auto simp: get_stock_data_individual_def fetch_try_def truediv_def Let_def
      split: sum.splits if_splits)

theorem snapshot_from_history_witness:
  "alpha_history \<noteq> []
   \<and> fst (get_stock_data_individual py_zero_division (Frame alpha_history) ''X'' ''Alpha'')
       = Some alpha_snapshot
   \<and> current_price alpha_snapshot = 19 / 2
   \<and> pct_change alpha_snapshot = (19 / 2 - 9) / 9 * 100
   \<and> day_profit_per_share alpha_snapshot = 19 / 2 - 9"
  using snapshot_from_history
    [of alpha_history _ py_zero_division "''X''" "''Alpha''", OF _ refl refl refl]
  by (simp add: get_stock_data_individual_def fetch_try_def truediv_def Let_def
      alpha_history_def alpha_snapshot_def)

section \<open>A failed fetch\<close>

text \<open>
  C5. When the fetch of a holding returns \<open>None\<close>, the iteration appends no row and leaves
  the three totals (and the cache) as they were, and the loop goes on with the next
  holding.
\<close>

theorem failed_fetch_is_skipped:
  assumes "fetched at_zero ak i stock = None"
  shows "\<exists>s. loop_body at_zero ak i stock st = Ok s
     \<and> portfolio_data s = portfolio_data st
     \<and> total_asset s = total_asset st
     \<and> total_profit s = total_profit st
     \<and> total_day_profit s = total_day_profit st
     \<and> history_cache s = history_cache st
     \<and> main_loop at_zero ak i (stock # rest) st = main_loop at_zero ak (Suc i) rest s"
  using assms by (simp add: loop_body_failed)

theorem failed_fetch_is_skipped_witness:
  "fetched py_zero_division scenario_provider 1 beta = None
   \<and> (\<exists>s. loop_body py_zero_division scenario_provider 1 beta initial_state = Ok s
        \<and> portfolio_data s = [] \<and> total_asset s = 0 \<and> total_profit s = 0
        \<and> total_day_profit s = 0
        \<and> main_loop py_zero_division scenario_provider 1 [beta, alpha] initial_state
            = main_loop py_zero_division scenario_provider 2 [alpha] s)"
  using failed_fetch_is_skipped [OF fetched_beta, of 1 initial_state "[alpha]"]
  by (auto simp: fetched_beta initial_state_def numeral_2_eq_2 simp del: main_loop.simps)

section \<open>The failure value of a fetch\<close>

text \<open>
  C6, as stated: an empty frame and a provider error give two distinct failure values.
  They do not: both give \<open>None\<close>.
\<close>

theorem fetch_failures_distinct_counterexample:
  "\<not> (fst (get_stock_data_individual py_zero_division (Frame []) ''X'' ''Alpha'')
       \<noteq> fst (get_stock_data_individual py_zero_division Provider_raises ''X'' ''Alpha''))"
  by (simp add: get_stock_data_individual_def fetch_try_def)

text \<open>
  C6, amended. An empty frame and a provider error both give the same value \<open>None\<close>; the
  reason is not part of the result. No exception leaves the function: whatever the \<open>try\<close>
  block raises, the handler prints the symbol with the exception and returns \<open>None\<close>.
  Only the exception path prints.
\<close>

theorem fetch_failure_single_sentinel:
  "get_stock_data_individual at_zero (Frame []) c n = (None, [])
   \<and> get_stock_data_individual at_zero Provider_raises c n = (None, [(c, ProviderError)])
   \<and> (fetch_try at_zero resp c n = Inl e \<longrightarrow>
        get_stock_data_individual at_zero resp c n = (None, [(c, e)]))
   \<and> (fetch_try at_zero resp c n = Inr r \<longrightarrow>
        get_stock_data_individual at_zero resp c n = (r, []))"
  by (simp add: get_stock_data_individual_def fetch_try_def)

theorem fetch_failure_single_sentinel_witness:
  "fetch_try py_zero_division Provider_raises ''X'' ''Alpha'' = Inl ProviderError
   \<and> get_stock_data_individual py_zero_division Provider_raises ''X'' ''Alpha''
       = (None, [(''X'', ProviderError)])
   \<and> fetch_try py_zero_division (Frame []) ''X'' ''Alpha'' = Inr None
   \<and> get_stock_data_individual py_zero_division (Frame []) ''X'' ''Alpha'' = (None, [])"
  using fetch_failure_single_sentinel
    [of py_zero_division "''X''" "''Alpha''" Provider_raises ProviderError]
    fetch_failure_single_sentinel
    [of py_zero_division "''X''" "''Alpha''" "Frame []" _ None]
  by (simp add: fetch_try_def)

section \<open>The outcome of a cycle\<close>

text \<open>
  C7. For a non-empty list of holdings: if every fetch fails, \<open>main\<close> reports that no data
  could be fetched and there is no row; if some fetch succeeds (and no fetched holding
  has a zero cost price), \<open>main\<close> goes on to the dashboard with the rows of the holdings
  that succeeded.
\<close>

theorem cycle_fails_iff_nothing_fetched:
  assumes "holdings \<noteq> []"
  shows "((\<forall>k < length holdings. fetched at_zero ak k (holdings ! k) = None) \<longrightarrow>
            (\<exists>s. main at_zero ak holdings = No_data s \<and> portfolio_data s = []))
     \<and> ((\<exists>k < length holdings. fetched at_zero ak k (holdings ! k) \<noteq> None)
          \<and> (\<forall>(stock, data) \<in> set (successes at_zero ak 0 holdings). cost_price stock \<noteq> 0) \<longrightarrow>
            (\<exists>s. main at_zero ak holdings = Dashboard s
               \<and> portfolio_data s \<noteq> []
               \<and> portfolio_data s =
                   map (\<lambda>(stock, data). position_row stock data)
                     (successes at_zero ak 0 holdings)))"
proof (intro conjI impI)
  assume "\<forall>k < length holdings. fetched at_zero ak k (holdings ! k) = None"
  then have e: "successes at_zero ak 0 holdings = []"
    by (simp add: successes_empty_iff)
  then have "\<forall>(stock, data) \<in> set (successes at_zero ak 0 holdings). cost_price stock \<noteq> 0"
    by simp
  from main_loop_ok [OF this, of initial_state] e obtain s where
    "main_loop at_zero ak 0 holdings initial_state = Ok s" "portfolio_data s = []"
    by (auto simp: initial_state_def)
  with assms show "\<exists>s. main at_zero ak holdings = No_data s \<and> portfolio_data s = []"
    by (simp add: main_def)
next
  assume a: "(\<exists>k < length holdings. fetched at_zero ak k (holdings ! k) \<noteq> None)
     \<and> (\<forall>(stock, data) \<in> set (successes at_zero ak 0 holdings). cost_price stock \<noteq> 0)"
  then have n: "successes at_zero ak 0 holdings \<noteq> []"
    by (simp add: successes_empty_iff)
  from a have "\<forall>(stock, data) \<in> set (successes at_zero ak 0 holdings). cost_price stock \<noteq> 0"
    by blast
  from main_loop_ok [OF this, of initial_state] obtain s where
    "main_loop at_zero ak 0 holdings initial_state = Ok s"
    "portfolio_data s =
       map (\<lambda>(stock, data). position_row stock data) (successes at_zero ak 0 holdings)"
    by (auto simp: initial_state_def)
  with assms n show "\<exists>s. main at_zero ak holdings = Dashboard s
       \<and> portfolio_data s \<noteq> []
       \<and> portfolio_data s =
           map (\<lambda>(stock, data). position_row stock data) (successes at_zero ak 0 holdings)"
    by (simp add: main_def)
qed

theorem cycle_fails_iff_nothing_fetched_witness:
  "(\<exists>s. main py_zero_division failing_provider [alpha, beta] = No_data s
       \<and> portfolio_data s = [])
   \<and> (\<exists>s. main py_zero_division scenario_provider [alpha, beta] = Dashboard s
       \<and> portfolio_data s = [position_row alpha alpha_snapshot])"
proof -
  have ne: "[alpha, beta] \<noteq> []"
    by simp
  have f: "\<forall>k < length [alpha, beta].
             fetched py_zero_division failing_provider k ([alpha, beta] ! k) = None"
    by (simp add: All_less_Suc2 fetched_failing)
  have g: "(\<exists>k < length [alpha, beta].
              fetched py_zero_division scenario_provider k ([alpha, beta] ! k) \<noteq> None)
     \<and> (\<forall>(stock, data) \<in> set (successes py_zero_division scenario_provider 0 [alpha, beta]).
          cost_price stock \<noteq> 0)"
    by (simp add: Ex_less_Suc2 fetched_alpha successes_scenario cost_alpha)
  from cycle_fails_iff_nothing_fetched [OF ne, of py_zero_division failing_provider] f
  have 1: "\<exists>s. main py_zero_division failing_provider [alpha, beta] = No_data s
       \<and> portfolio_data s = []"
    by blast
  from cycle_fails_iff_nothing_fetched [OF ne, of py_zero_division scenario_provider] g
  have "\<exists>s. main py_zero_division scenario_provider [alpha, beta] = Dashboard s
       \<and> portfolio_data s \<noteq> []
       \<and> portfolio_data s = map (\<lambda>(stock, data). position_row stock data)
            (successes py_zero_division scenario_provider 0 [alpha, beta])"
    by blast
  then have 2: "\<exists>s. main py_zero_division scenario_provider [alpha, beta] = Dashboard s
       \<and> portfolio_data s = [position_row alpha alpha_snapshot]"
    by (auto simp: successes_scenario)
  from 1 2 show ?thesis
    by blast
qed

section \<open>The order of the rows\<close>

text \<open>
  C8. The rows of \<open>portfolio_data\<close> are the rows of exactly the holdings whose fetch
  returned a snapshot, in the order of the holdings list: one row per such holding, and
  these holdings form a subsequence of the list.
\<close>

theorem rows_follow_holdings_order:
  assumes "\<forall>(stock, data) \<in> set (successes at_zero ak 0 holdings). cost_price stock \<noteq> 0"
  shows "\<exists>s. main_loop at_zero ak 0 holdings initial_state = Ok s
     \<and> portfolio_data s =
         map (\<lambda>(stock, data). position_row stock data) (successes at_zero ak 0 holdings)
     \<and> map row_code (portfolio_data s) = map (code \<circ> fst) (successes at_zero ak 0 holdings)
     \<and> map fst (successes at_zero ak 0 holdings) =
         map snd (filter (\<lambda>(k, stock). fetched at_zero ak k stock \<noteq> None)
           (enumerate 0 holdings))
     \<and> subseq (map fst (successes at_zero ak 0 holdings)) holdings"
proof -
  from main_loop_ok [OF assms, of initial_state] obtain s where
    s: "main_loop at_zero ak 0 holdings initial_state = Ok s"
      "portfolio_data s =
         map (\<lambda>(stock, data). position_row stock data) (successes at_zero ak 0 holdings)"
    by (auto simp: initial_state_def)
  have "map row_code (portfolio_data s) = map (code \<circ> fst) (successes at_zero ak 0 holdings)"
    by (simp add: s comp_def case_prod_unfold position_row_def)
  with s show ?thesis
    using map_fst_successes [of at_zero ak 0 holdings] subseq_successes [of at_zero ak 0 holdings]
    by blast
qed

theorem rows_follow_holdings_order_witness:
  "successes py_zero_division scenario_provider 0 [beta, alpha, beta, alpha]
     = [(alpha, alpha_snapshot), (alpha, alpha_snapshot)]
   \<and> cost_price alpha \<noteq> 0
   \<and> (\<exists>s. main_loop py_zero_division scenario_provider 0 [beta, alpha, beta, alpha]
              initial_state = Ok s
        \<and> map row_code (portfolio_data s) = [''X'', ''X''])"
proof -
  have e: "successes py_zero_division scenario_provider 0 [beta, alpha, beta, alpha]
     = [(alpha, alpha_snapshot), (alpha, alpha_snapshot)]"
    by (simp add: successes_Cons fetched_alpha fetched_beta)
  then have h: "\<forall>(stock, data) \<in>
      set (successes py_zero_division scenario_provider 0 [beta, alpha, beta, alpha]).
      cost_price stock \<noteq> 0"
    by (simp add: cost_alpha)
  from rows_follow_holdings_order [OF h] obtain s where
    "main_loop py_zero_division scenario_provider 0 [beta, alpha, beta, alpha] initial_state
       = Ok s"
    "map row_code (portfolio_data s) = map (code \<circ> fst)
       (successes py_zero_division scenario_provider 0 [beta, alpha, beta, alpha])"
    by blast
  then have "main_loop py_zero_division scenario_provider 0 [beta, alpha, beta, alpha]
       initial_state = Ok s \<and> map row_code (portfolio_data s) = [''X'', ''X'']"
    by (simp add: e code_alpha del: main_loop.simps)
  with e cost_alpha show ?thesis
    by (simp del: main_loop.simps)
qed

section \<open>The pause between fetches\<close>

text \<open>
  C9. In the log of a run of \<open>main\<close>, between any two fetches there is a call
  \<open>time.sleep(0.2)\<close>; when the loop reaches its end, the log is one fetch followed by one
  such pause for every holding, in order.
\<close>

theorem pause_between_fetches:
  "(\<forall>i j a b. i < j \<and> j < length (page_events (main at_zero ak holdings))
        \<and> page_events (main at_zero ak holdings) ! i = Fetch a
        \<and> page_events (main at_zero ak holdings) ! j = Fetch b \<longrightarrow>
        (\<exists>k. i < k \<and> k < j \<and> page_events (main at_zero ak holdings) ! k = Sleep (2 / 10)))
   \<and> (\<forall>s. main_loop at_zero ak 0 holdings initial_state = Ok s \<longrightarrow>
        events s = concat (map (\<lambda>stock. [Fetch (code stock), Sleep (2 / 10)]) holdings))"
proof -
  have p: "paced (page_events (main at_zero ak holdings))"
  proof (cases "holdings = []")
    case True
    then show ?thesis by (simp add: main_def)
  next
    case False
    from main_loop_paced [of at_zero ak 0 holdings initial_state]
    have "paced (events (state_of (main_loop at_zero ak 0 holdings initial_state)))"
      by (auto simp: initial_state_def)
    with False show ?thesis
      by (cases "main_loop at_zero ak 0 holdings initial_state") (simp_all add: main_def)
  qed
  have "events s = concat (map (\<lambda>stock. [Fetch (code stock), Sleep (2 / 10)]) holdings)"
    if "main_loop at_zero ak 0 holdings initial_state = Ok s" for s
    using main_loop_events_ok [OF that] by (simp add: initial_state_def)
  with p show ?thesis
    by (blast intro: paced_between)
qed

theorem pause_between_fetches_witness:
  "page_events (main py_zero_division scenario_provider [alpha, beta])
     = [Fetch ''X'', Sleep (2 / 10), Fetch ''Y'', Sleep (2 / 10)]
   \<and> (\<exists>k. 0 < k \<and> k < 2
        \<and> page_events (main py_zero_division scenario_provider [alpha, beta]) ! k
            = Sleep (2 / 10))"
proof -
  have h: "\<forall>(stock, data) \<in> set (successes py_zero_division scenario_provider 0 [alpha, beta]).
             cost_price stock \<noteq> 0"
    by (simp add: successes_scenario cost_alpha)
  from main_loop_ok [OF h, of initial_state] obtain s where
    s: "main_loop py_zero_division scenario_provider 0 [alpha, beta] initial_state = Ok s"
    by blast
  with pause_between_fetches [of py_zero_division scenario_provider "[alpha, beta]"]
  have "events s = [Fetch ''X'', Sleep (2 / 10), Fetch ''Y'', Sleep (2 / 10)]"
    by (simp add: alpha_def beta_def del: main_loop.simps)
  with s have e: "page_events (main py_zero_division scenario_provider [alpha, beta])
     = [Fetch ''X'', Sleep (2 / 10), Fetch ''Y'', Sleep (2 / 10)]"
    by (simp add: main_def del: main_loop.simps)
  with pause_between_fetches [of py_zero_division scenario_provider "[alpha, beta]"]
  have "\<exists>k. 0 < k \<and> k < 2
        \<and> page_events (main py_zero_division scenario_provider [alpha, beta]) ! k
            = Sleep (2 / 10)"
    by (metis nth_Cons_0 nth_Cons_Suc numeral_2_eq_2 lessI)
  with e show ?thesis
    by blast
qed

end
